theory Spec2Isabelle
  imports Complex_Main "HOL-Library.Sublist"
begin

section \<open>Load-test scenarios of the online-banking gateway (locustfile.py)\<close>

text \<open>
  The file under verification defines three simulated users on top of a load-generation
  library. Everything the users do is: log in, fetch and cache the account list, issue one
  request, and classify the response as passed or failed. This theory embeds those
  functions and proves what the specification says about them.

  What is modelled, and how:
  \<^item> the values \<^verbatim>\<open>response.json()\<close> returns are the datatype \<open>json\<close>; Python's \<^verbatim>\<open>None\<close> is
    \<open>JNull\<close>, a dict is an association list in insertion order read with \<open>map_of\<close>
    (Python dicts have distinct keys). JSON numbers are integers here: Python floats
    (binary rounding, NaN) are not represented in \<open>json\<close>;
  \<^item> strings are \<open>string\<close>; \<^verbatim>\<open>str.upper\<close>, \<^verbatim>\<open>str.lower\<close> and \<^verbatim>\<open>repr\<close> are modelled on ASCII:
    a character outside ASCII is left as it is;
  \<^item> an exception is a value of \<open>exn\<close>; a function that can raise returns \<open>exn + 'a\<close>, and
    a method that also changes the user object is an \<open>action\<close>: it takes the object and
    returns the result together with the object as it is when the method returns or raises;
  \<^item> the HTTP client is a parameter: a function from the number of calls made so far and
    the request to the response, or to the exception the call raises;
  \<^item> the values drawn from \<^verbatim>\<open>random\<close> are parameters of the tasks;
  \<^item> \<^verbatim>\<open>response.success()\<close> and \<^verbatim>\<open>response.failure(msg)\<close> are the marks \<open>Success\<close> and
    \<open>Failure\<close>, recorded with the request in the field \<open>sent\<close> when the \<^verbatim>\<open>with\<close> block is
    left; the failure message and the logging calls have no effect on the user object and
    are not modelled.
\<close>

subsection \<open>Values decoded from JSON, and the Python operations on them\<close>

datatype json =
    JNull
  | JBool bool
  | JInt int
  | JStr string
  | JArr "json list"
  | JObj "(string \<times> json) list"

datatype exn = JSONDecodeError | AttributeError | TypeError | IndexError | KeyError | OtherException

text \<open>Truth value of a decoded value, as \<^verbatim>\<open>if x:\<close> and \<^verbatim>\<open>x and y\<close> take it.\<close>

fun py_truthy :: "json \<Rightarrow> bool" where
  "py_truthy JNull = False"
| "py_truthy (JBool b) = b"
| "py_truthy (JInt i) = (i \<noteq> 0)"
| "py_truthy (JStr s) = (s \<noteq> [])"
| "py_truthy (JArr xs) = (xs \<noteq> [])"
| "py_truthy (JObj kvs) = (kvs \<noteq> [])"

text \<open>\<^verbatim>\<open>x.get(key)\<close> and \<^verbatim>\<open>x.get(key, default)\<close>: only a dict has the method.\<close>

definition py_get_default :: "json \<Rightarrow> string \<Rightarrow> json \<Rightarrow> exn + json" where
  "py_get_default x key dflt =
     (case x of
        JObj kvs \<Rightarrow> (case map_of kvs key of Some v \<Rightarrow> Inr v | None \<Rightarrow> Inr dflt)
      | _ \<Rightarrow> Inl AttributeError)"

definition py_get :: "json \<Rightarrow> string \<Rightarrow> exn + json" where
  "py_get x key = py_get_default x key JNull"

text \<open>\<^verbatim>\<open>len(x)\<close>: defined on strings, lists and dicts.\<close>

definition py_len :: "json \<Rightarrow> exn + nat" where
  "py_len x =
     (case x of
        JStr s \<Rightarrow> Inr (length s)
      | JArr xs \<Rightarrow> Inr (length xs)
      | JObj kvs \<Rightarrow> Inr (length kvs)
      | _ \<Rightarrow> Inl TypeError)"

text \<open>\<^verbatim>\<open>x and len(x) >= n\<close>, read as a condition: \<^verbatim>\<open>len\<close> is only called on a truthy \<open>x\<close>.\<close>

definition truthy_and_len_ge :: "json \<Rightarrow> nat \<Rightarrow> exn + bool" where
  "truthy_and_len_ge x n =
     (if py_truthy x then (case py_len x of Inl e \<Rightarrow> Inl e | Inr l \<Rightarrow> Inr (n \<le> l))
      else Inr False)"

text \<open>\<^verbatim>\<open>for acc in x\<close>: the elements of a list, the characters of a string, the keys of a dict.\<close>

definition py_iter :: "json \<Rightarrow> exn + json list" where
  "py_iter x =
     (case x of
        JStr s \<Rightarrow> Inr (map (\<lambda>c. JStr [c]) s)
      | JArr xs \<Rightarrow> Inr xs
      | JObj kvs \<Rightarrow> Inr (map (\<lambda>kv. JStr (fst kv)) kvs)
      | _ \<Rightarrow> Inl TypeError)"

text \<open>
  \<^verbatim>\<open>random.choice(seq)\<close> is \<^verbatim>\<open>seq[i]\<close> for a random index below \<^verbatim>\<open>len(seq)\<close>, and raises
  IndexError on an empty sequence. The draw is the parameter \<open>k\<close>, reduced to an index.
  Indexing a dict decoded from JSON with an integer raises KeyError: its keys are strings.
\<close>

definition choice :: "nat \<Rightarrow> 'a list \<Rightarrow> exn + 'a" where
  "choice k xs = (if xs = [] then Inl IndexError else Inr (xs ! (k mod length xs)))"

definition random_choice :: "nat \<Rightarrow> json \<Rightarrow> exn + json" where
  "random_choice k seq =
     (case seq of
        JArr xs \<Rightarrow> choice k xs
      | JStr s \<Rightarrow> choice k (map (\<lambda>c. JStr [c]) s)
      | JObj kvs \<Rightarrow> (if kvs = [] then Inl IndexError else Inl KeyError)
      | _ \<Rightarrow> Inl TypeError)"

text \<open>
  \<^verbatim>\<open>x == y\<close>: \<^verbatim>\<open>True\<close> and \<^verbatim>\<open>False\<close> are the integers 1 and 0, lists are compared element by
  element, dicts have the same number of entries and equal values under each key.
\<close>

function (sequential) py_eq :: "json \<Rightarrow> json \<Rightarrow> bool"
  and py_eq_list :: "json list \<Rightarrow> json list \<Rightarrow> bool"
  and py_eq_keys :: "string list \<Rightarrow> (string \<times> json) list \<Rightarrow> (string \<times> json) list \<Rightarrow> bool"
where
  "py_eq JNull JNull = True"
| "py_eq (JBool b) (JBool c) = (b = c)"
| "py_eq (JBool b) (JInt j) = ((if b then 1 else 0) = j)"
| "py_eq (JInt i) (JBool c) = (i = (if c then 1 else 0))"
| "py_eq (JInt i) (JInt j) = (i = j)"
| "py_eq (JStr s) (JStr t) = (s = t)"
| "py_eq (JArr xs) (JArr ys) = py_eq_list xs ys"
| "py_eq (JObj a) (JObj b) = (length a = length b \<and> py_eq_keys (map fst a) a b)"
| "py_eq _ _ = False"
| "py_eq_list [] [] = True"
| "py_eq_list (x # xs) (y # ys) = (py_eq x y \<and> py_eq_list xs ys)"
| "py_eq_list _ _ = False"
| "py_eq_keys [] a b = True"
| "py_eq_keys (k # ks) a b =
     ((case map_of a k of
         None \<Rightarrow> False
       | Some v \<Rightarrow> (case map_of b k of None \<Rightarrow> False | Some w \<Rightarrow> py_eq v w))
      \<and> py_eq_keys ks a b)"
  by pat_completeness auto
termination
proof -
  have sz: "size v < size_list (size_prod (\<lambda>_. 0) size) kvs"
    if "map_of kvs k = Some v" for kvs :: "(string \<times> json) list" and k v
    using that by (induction kvs) (auto split: if_splits)
  show ?thesis
    by (relation "measures
      [\<lambda>x. case x of
          Inl (v, w) \<Rightarrow> size v + size w
        | Inr (Inl (xs, ys)) \<Rightarrow> size_list size xs + size_list size ys
        | Inr (Inr (ks, a, b)) \<Rightarrow>
            size_list (size_prod (\<lambda>_. 0) size) a + size_list (size_prod (\<lambda>_. 0) size) b,
       \<lambda>x. case x of Inr (Inr (ks, a, b)) \<Rightarrow> length ks | _ \<Rightarrow> 0]")
      (auto dest!: sz)
qed

subsection \<open>Text: \<^verbatim>\<open>str()\<close>, \<^verbatim>\<open>upper()\<close>, \<^verbatim>\<open>lower()\<close> and \<^verbatim>\<open>in\<close>\<close>

definition digit_char :: "nat \<Rightarrow> char" where
  "digit_char n = ''0123456789'' ! n"

function show_nat :: "nat \<Rightarrow> string" where
  "show_nat n = (if n < 10 then [digit_char n] else show_nat (n div 10) @ [digit_char (n mod 10)])"
  by pat_completeness auto
termination
  by (relation "measure (\<lambda>n. n)") auto

declare show_nat.simps [simp del]

definition show_int :: "int \<Rightarrow> string" where
  "show_int i = (if i < 0 then CHR ''-'' # show_nat (nat (- i)) else show_nat (nat i))"

definition hex_digit :: "nat \<Rightarrow> char" where
  "hex_digit n = ''0123456789abcdef'' ! n"

text \<open>
  \<^verbatim>\<open>repr\<close> of a string: in single quotes, or in double quotes when the string has a single
  quote and no double quote; the quote and the backslash are escaped, control characters
  are written \<^verbatim>\<open>\t\<close>, \<^verbatim>\<open>\n\<close>, \<^verbatim>\<open>\r\<close> or \<^verbatim>\<open>\xhh\<close>.
\<close>

definition repr_char :: "char \<Rightarrow> char \<Rightarrow> string" where
  "repr_char q c =
     (if c = q \<or> c = CHR 0x5C then [CHR 0x5C, c]
      else if c = CHR 0x09 then [CHR 0x5C, CHR ''t'']
      else if c = CHR 0x0A then [CHR 0x5C, CHR ''n'']
      else if c = CHR 0x0D then [CHR 0x5C, CHR ''r'']
      else if (of_char c :: nat) < 32 \<or> (of_char c :: nat) = 127
        then [CHR 0x5C, CHR ''x'', hex_digit ((of_char c :: nat) div 16),
              hex_digit ((of_char c :: nat) mod 16)]
      else [c])"

definition repr_quote :: "string \<Rightarrow> char" where
  "repr_quote s = (if CHR 0x27 \<in> set s \<and> CHR 0x22 \<notin> set s then CHR 0x22 else CHR 0x27)"

definition repr_str :: "string \<Rightarrow> string" where
  "repr_str s = [repr_quote s] @ concat (map (repr_char (repr_quote s)) s) @ [repr_quote s]"

fun join :: "string \<Rightarrow> string list \<Rightarrow> string" where
  "join sep [] = []"
| "join sep [x] = x"
| "join sep (x # y # ys) = x @ sep @ join sep (y # ys)"

fun py_repr :: "json \<Rightarrow> string" where
  "py_repr JNull = ''None''"
| "py_repr (JBool b) = (if b then ''True'' else ''False'')"
| "py_repr (JInt i) = show_int i"
| "py_repr (JStr s) = repr_str s"
| "py_repr (JArr xs) = ''['' @ join '', '' (map py_repr xs) @ '']''"
| "py_repr (JObj kvs) =
     ''{'' @ join '', '' (map (\<lambda>(k, v). repr_str k @ '': '' @ py_repr v) kvs) @ ''}''"

text \<open>\<^verbatim>\<open>str(x)\<close>, which is also what an f-string puts for \<^verbatim>\<open>{x}\<close>.\<close>

definition py_str :: "json \<Rightarrow> string" where
  "py_str v = (case v of JStr s \<Rightarrow> s | _ \<Rightarrow> py_repr v)"

definition upper_char :: "char \<Rightarrow> char" where
  "upper_char c =
     (case map_of (zip ''abcdefghijklmnopqrstuvwxyz'' ''ABCDEFGHIJKLMNOPQRSTUVWXYZ'') c of
        Some u \<Rightarrow> u | None \<Rightarrow> c)"

definition lower_char :: "char \<Rightarrow> char" where
  "lower_char c =
     (case map_of (zip ''ABCDEFGHIJKLMNOPQRSTUVWXYZ'' ''abcdefghijklmnopqrstuvwxyz'') c of
        Some l \<Rightarrow> l | None \<Rightarrow> c)"

definition upper :: "string \<Rightarrow> string" where
  "upper s = map upper_char s"

definition lower :: "string \<Rightarrow> string" where
  "lower s = map lower_char s"

text \<open>\<^verbatim>\<open>p in s\<close> on strings: \<open>p\<close> occurs in \<open>s\<close> as a contiguous piece.\<close>

fun starts_with :: "string \<Rightarrow> string \<Rightarrow> bool" where
  "starts_with [] s = True"
| "starts_with (p # ps) [] = False"
| "starts_with (p # ps) (c # cs) = (p = c \<and> starts_with ps cs)"

fun contains :: "string \<Rightarrow> string \<Rightarrow> bool" where
  "contains p [] = (p = [])"
| "contains p (c # cs) = (starts_with p (c # cs) \<or> contains p cs)"

text \<open>
  \<^verbatim>\<open>round(x, 2)\<close>: the nearest multiple of 1/100, a tie going to the even one. The amount
  is a rational number here; the binary representation of a Python float is not modelled.
\<close>

definition round_half_even :: "rat \<Rightarrow> int" where
  "round_half_even x =
     (if x - of_int \<lfloor>x\<rfloor> < 1 / 2 then \<lfloor>x\<rfloor>
      else if 1 / 2 < x - of_int \<lfloor>x\<rfloor> then \<lfloor>x\<rfloor> + 1
      else if even \<lfloor>x\<rfloor> then \<lfloor>x\<rfloor> else \<lfloor>x\<rfloor> + 1)"

definition py_round2 :: "rat \<Rightarrow> rat" where
  "py_round2 x = of_int (round_half_even (x * 100)) / 100"

text \<open>
  \<^verbatim>\<open>random.uniform(a, b)\<close> is \<^verbatim>\<open>a + (b - a) * random.random()\<close>, and \<^verbatim>\<open>random.random()\<close> is a
  number from 0 up to, and not including, 1. The draw is the parameter \<open>u\<close>, reduced to
  that range by taking its fractional part.
\<close>

definition random_uniform :: "rat \<Rightarrow> rat \<Rightarrow> rat \<Rightarrow> rat" where
  "random_uniform a b u = a + (b - a) * frac u"

subsection \<open>Requests, responses and the user object\<close>

text \<open>
  Of a response the code reads \<^verbatim>\<open>status_code\<close> and \<^verbatim>\<open>json()\<close>. The field \<open>decoded\<close> is what
  \<^verbatim>\<open>json()\<close> returns, \<open>None\<close> when the body is not JSON and \<^verbatim>\<open>json()\<close> raises JSONDecodeError.
\<close>

record response =
  status_code :: int
  decoded :: "json option"

definition response_json :: "response \<Rightarrow> exn + json" where
  "response_json response =
     (case decoded response of None \<Rightarrow> Inl JSONDecodeError | Some v \<Rightarrow> Inr v)"

datatype verb = GET | POST

datatype payload =
    NoPayload
  | LoginData string string
  | TransferData json json rat string

record request =
  verb :: verb
  url :: string
  name :: string
  headers :: "(string \<rightharpoonup> string) option"
  payload :: payload

datatype mark = Success | Failure

text \<open>
  How a call through \<^verbatim>\<open>self.client\<close> ended: the \<^verbatim>\<open>with\<close> block marked the response, or an
  exception left the block before any mark, or the call itself raised.
\<close>

datatype outcome = Marked mark | Aborted exn | NoResponse exn

type_synonym client = "nat \<Rightarrow> request \<Rightarrow> exn + response"

record user =
  token :: json
  user_id :: json
  accounts :: json
  email :: string
  password :: string
  sent :: "(request \<times> outcome) list"

type_synonym 'a action = "user \<Rightarrow> (exn + 'a) \<times> user"

definition returns :: "'a \<Rightarrow> 'a action" where
  "returns a s = (Inr a, s)"

definition lift :: "exn + 'a \<Rightarrow> 'a action" where
  "lift r s = (r, s)"

definition then_do :: "'a action \<Rightarrow> ('a \<Rightarrow> 'b action) \<Rightarrow> 'b action" where
  "then_do m f s = (case m s of (Inl e, s') \<Rightarrow> (Inl e, s') | (Inr a, s') \<Rightarrow> f a s')"

definition get_self :: "user action" where
  "get_self s = (Inr s, s)"

definition assign :: "(user \<Rightarrow> user) \<Rightarrow> unit action" where
  "assign f s = (Inr (), f s)"

text \<open>\<^verbatim>\<open>try: m except (E1, E2): h\<close>; \<^verbatim>\<open>except Exception\<close> and a bare \<^verbatim>\<open>except\<close> handle every \<open>exn\<close>.\<close>

definition try_except :: "(exn \<Rightarrow> bool) \<Rightarrow> 'a action \<Rightarrow> 'a action \<Rightarrow> 'a action" where
  "try_except handled m h s =
     (case m s of
        (Inl e, s') \<Rightarrow> (if handled e then h s' else (Inl e, s'))
      | (Inr a, s') \<Rightarrow> (Inr a, s'))"

definition any_exception :: "exn \<Rightarrow> bool" where
  "any_exception e = True"

text \<open>
  \<^verbatim>\<open>with self.client.get/post(..., catch_response=True) as response: block\<close>. The block
  returns the mark it set and the value it hands on.
\<close>

definition with_response ::
  "client \<Rightarrow> request \<Rightarrow> (response \<Rightarrow> (mark \<times> 'a) action) \<Rightarrow> 'a action" where
  "with_response client rq block s =
     (case client (length (sent s)) rq of
        Inl e \<Rightarrow> (Inl e, s\<lparr>sent := sent s @ [(rq, NoResponse e)]\<rparr>)
      | Inr response \<Rightarrow>
          (case block response s of
             (Inl e, s') \<Rightarrow> (Inl e, s'\<lparr>sent := sent s' @ [(rq, Aborted e)]\<rparr>)
           | (Inr (m, a), s') \<Rightarrow> (Inr a, s'\<lparr>sent := sent s' @ [(rq, Marked m)]\<rparr>)))"

subsection \<open>The constant pools\<close>

definition TEST_CREDENTIALS :: "(string \<times> string) list" where
  "TEST_CREDENTIALS =
     [(''user1@example.com'', ''password123''),
      (''user2@example.com'', ''password123''),
      (''user3@example.com'', ''password123''),
      (''admin@example.com'', ''password123'')]"

definition TEST_ACCOUNTS :: "int list" where
  "TEST_ACCOUNTS = [1000001, 1000002, 1000003]"

subsection \<open>BaseUser\<close>

definition login_request :: "user \<Rightarrow> request" where
  "login_request s =
     \<lparr>verb = POST, url = ''/api/v1/login'', name = ''Auth - Login'', headers = None,
      payload = LoginData (email s) (password s)\<rparr>"

text \<open>The \<^verbatim>\<open>try\<close> block of \<^verbatim>\<open>authenticate\<close> under status 200 (lines 136 to 146).\<close>

definition login_ok :: "response \<Rightarrow> (mark \<times> unit) action" where
  "login_ok response =
     then_do (lift (response_json response)) (\<lambda>response_data.
     then_do (lift (py_get response_data ''jwtToken'')) (\<lambda>t.
     then_do (assign (\<lambda>s. s\<lparr>token := t\<rparr>)) (\<lambda>_.
     then_do (lift (py_get_default response_data ''user'' (JObj []))) (\<lambda>user_data.
     then_do (lift (py_get user_data ''userId'')) (\<lambda>u.
     then_do (assign (\<lambda>s. s\<lparr>user_id := u\<rparr>)) (\<lambda>_.
     then_do get_self (\<lambda>s.
       if py_truthy (token s) \<and> py_truthy (user_id s) then returns (Success, ())
       else returns (Failure, ()))))))))"

definition login_response :: "response \<Rightarrow> (mark \<times> unit) action" where
  "login_response response =
     (if status_code response = 0 then returns (Failure, ())
      else if status_code response = 200 then
        try_except (\<lambda>e. e = JSONDecodeError \<or> e = AttributeError)
          (login_ok response)
          (returns (Failure, ()))
      else if status_code response = 401 then returns (Failure, ())
      else if status_code response = 404 then returns (Failure, ())
      else returns (Failure, ()))"

definition authenticate :: "client \<Rightarrow> unit action" where
  "authenticate client =
     try_except any_exception
       (\<lambda>s. with_response client (login_request s) login_response s)
       (returns ())"

definition on_start :: "client \<Rightarrow> nat \<Rightarrow> unit action" where
  "on_start client k =
     then_do (assign (\<lambda>s. s\<lparr>token := JNull, user_id := JNull, accounts := JArr []\<rparr>)) (\<lambda>_.
     then_do (lift (choice k TEST_CREDENTIALS)) (\<lambda>creds.
     then_do (assign (\<lambda>s. s\<lparr>email := fst creds, password := snd creds\<rparr>)) (\<lambda>_.
     authenticate client)))"

definition get_headers :: "user \<Rightarrow> (string \<rightharpoonup> string)" where
  "get_headers s =
     (if py_truthy (token s)
      then [''Content-Type'' \<mapsto> ''application/json'',
            ''Authorization'' \<mapsto> ''Bearer '' @ py_str (token s)]
      else [''Content-Type'' \<mapsto> ''application/json''])"

text \<open>The \<^verbatim>\<open>try\<close> block of \<^verbatim>\<open>validate_response\<close> under status 200 (lines 189 to 198).\<close>

definition validate_json :: "response \<Rightarrow> string option \<Rightarrow> exn + bool" where
  "validate_json response success_field =
     (case response_json response of
        Inl e \<Rightarrow> Inl e
      | Inr data \<Rightarrow>
          (case success_field of
             None \<Rightarrow> Inr True
           | Some field \<Rightarrow>
               if field = [] then Inr True
               else
                 (case py_get data field of
                    Inl e \<Rightarrow> Inl e
                  | Inr field_value \<Rightarrow>
                      if py_truthy field_value
                         \<and> contains ''SUCCESS'' (upper (py_str field_value))
                      then Inr True
                      else if py_truthy field_value then Inr False
                      else Inr True)))"

definition validate_response :: "response \<Rightarrow> string option \<Rightarrow> exn + bool" where
  "validate_response response success_field =
     (if status_code response = 0 then Inr False
      else if status_code response = 200 then
        (case validate_json response success_field of
           Inl e \<Rightarrow> (if e = JSONDecodeError \<or> e = AttributeError then Inr True else Inl e)
         | Inr b \<Rightarrow> Inr b)
      else Inr False)"

definition accounts_request :: "user \<Rightarrow> request" where
  "accounts_request s =
     \<lparr>verb = GET, url = ''/api/v1/account/user/'' @ py_str (user_id s),
      name = ''Account - Get User Accounts'', headers = Some (get_headers s),
      payload = NoPayload\<rparr>"

text \<open>
  The \<^verbatim>\<open>with\<close> block of \<^verbatim>\<open>get_user_accounts\<close>. Its value is \<open>Some v\<close> where the block executes
  \<^verbatim>\<open>return v\<close>, and \<open>None\<close> where control goes on to the \<^verbatim>\<open>return []\<close> that ends the method.
  \<^verbatim>\<open>len(self.accounts)\<close> in the log line raises TypeError on a value without a length, after
  the assignment.
\<close>

definition accounts_response :: "response \<Rightarrow> (mark \<times> json option) action" where
  "accounts_response response =
     (if status_code response = 0 then returns (Failure, Some (JArr []))
      else if status_code response = 200 then
        try_except (\<lambda>e. e = JSONDecodeError)
          (then_do (lift (response_json response)) (\<lambda>data.
           then_do (assign (\<lambda>s. s\<lparr>accounts := data\<rparr>)) (\<lambda>_.
           then_do get_self (\<lambda>s.
           then_do (lift (py_len (accounts s))) (\<lambda>n.
           returns (Success, Some (accounts s)))))))
          (returns (Failure, None))
      else if status_code response = 401 then returns (Failure, None)
      else if status_code response = 404 then returns (Failure, None)
      else returns (Failure, None))"

definition get_user_accounts :: "client \<Rightarrow> json action" where
  "get_user_accounts client s =
     (if \<not> py_truthy (user_id s) then returns (JArr []) s
      else if py_truthy (accounts s) then returns (accounts s) s
      else
        then_do
          (try_except any_exception
             (with_response client (accounts_request s) accounts_response)
             (returns None))
          (\<lambda>r. case r of Some v \<Rightarrow> returns v | None \<Rightarrow> returns (JArr [])) s)"

subsection \<open>BrowseUser\<close>

definition account_request :: "user \<Rightarrow> string \<Rightarrow> request" where
  "account_request s account_no =
     \<lparr>verb = GET, url = ''/api/v1/account/'' @ account_no,
      name = ''Account - View Account Details'', headers = Some (get_headers s),
      payload = NoPayload\<rparr>"

definition account_response :: "response \<Rightarrow> (mark \<times> unit) action" where
  "account_response response =
     (if status_code response = 0 then returns (Failure, ())
      else if status_code response = 200 then
        then_do (lift (validate_response response None)) (\<lambda>valid.
          if valid then returns (Success, ()) else returns (Failure, ()))
      else if status_code response = 401 then returns (Failure, ())
      else if status_code response = 404 then returns (Failure, ())
      else returns (Failure, ()))"

text \<open>\<open>k\<close> is the draw of \<^verbatim>\<open>random.choice(accounts)\<close>.\<close>

definition browse_accounts :: "client \<Rightarrow> nat \<Rightarrow> unit action" where
  "browse_accounts client k =
     then_do (get_user_accounts client) (\<lambda>accounts.
     then_do (lift (truthy_and_len_ge accounts 1)) (\<lambda>some.
       if some then
         then_do (lift (random_choice k accounts)) (\<lambda>account.
         then_do (lift (py_get account ''accountno'')) (\<lambda>account_no.
           if py_truthy account_no then
             (\<lambda>s. with_response client (account_request s (py_str account_no))
                    account_response s)
           else returns ()))
       else
         then_do (get_user_accounts client) (\<lambda>_. returns ())))"

subsection \<open>ActiveUser\<close>

text \<open>
  The comprehension \<^verbatim>\<open>[acc for acc in accounts if acc.get("accountno") !=
  from_account.get("accountno")]\<close>: an element without \<^verbatim>\<open>get\<close> raises AttributeError.
\<close>

fun other_accounts :: "json list \<Rightarrow> json \<Rightarrow> exn + json list" where
  "other_accounts [] from_account = Inr []"
| "other_accounts (acc # accs) from_account =
     (case py_get acc ''accountno'' of
        Inl e \<Rightarrow> Inl e
      | Inr a \<Rightarrow>
          (case py_get from_account ''accountno'' of
             Inl e \<Rightarrow> Inl e
           | Inr b \<Rightarrow>
               (case other_accounts accs from_account of
                  Inl e \<Rightarrow> Inl e
                | Inr rest \<Rightarrow> Inr (if \<not> py_eq a b then acc # rest else rest))))"

definition transfer_request :: "user \<Rightarrow> json \<Rightarrow> json \<Rightarrow> rat \<Rightarrow> request" where
  "transfer_request s from_account_no to_account_no transfer_amount =
     \<lparr>verb = POST, url = ''/api/v1/account/transfer'', name = ''Account - Transfer Money'',
      headers = Some (get_headers s),
      payload = TransferData from_account_no to_account_no transfer_amount
                  ''Test transfer from load test''\<rparr>"

definition transfer_response :: "response \<Rightarrow> (mark \<times> unit) action" where
  "transfer_response response =
     (if status_code response = 0 then returns (Failure, ())
      else if status_code response = 200 then
        then_do (lift (validate_response response (Some ''transactionStatus''))) (\<lambda>valid.
          if valid then returns (Success, ()) else returns (Failure, ()))
      else if status_code response = 400 then
        try_except any_exception
          (then_do (lift (response_json response)) (\<lambda>error_data.
             if contains ''insufficient'' (lower (py_str error_data))
                \<or> contains ''balance'' (lower (py_str error_data))
             then returns (Success, ())
             else returns (Failure, ())))
          (returns (Failure, ()))
      else if status_code response = 401 then returns (Failure, ())
      else returns (Failure, ()))"

text \<open>
  \<open>i\<close> and \<open>j\<close> are the draws of the two \<^verbatim>\<open>random.choice\<close> calls and \<open>u\<close> is the draw of
  \<^verbatim>\<open>random.uniform(1.0, 100.0)\<close>; the amount is \<^verbatim>\<open>round(random.uniform(1.0, 100.0), 2)\<close>.
\<close>

definition view_and_transfer :: "client \<Rightarrow> nat \<Rightarrow> nat \<Rightarrow> rat \<Rightarrow> unit action" where
  "view_and_transfer client i j u =
     then_do (get_user_accounts client) (\<lambda>accounts.
     then_do (lift (truthy_and_len_ge accounts 2)) (\<lambda>enough.
       if enough then
         then_do (lift (random_choice i accounts)) (\<lambda>from_account.
         then_do (lift (py_iter accounts)) (\<lambda>accs.
         then_do (lift (other_accounts accs from_account)) (\<lambda>others.
         then_do (lift (choice j others)) (\<lambda>to_account.
         then_do (lift (py_get from_account ''accountno'')) (\<lambda>from_account_no.
         then_do (lift (py_get to_account ''accountno'')) (\<lambda>to_account_no.
           if py_truthy from_account_no \<and> py_truthy to_account_no then
             (\<lambda>s. with_response client
                    (transfer_request s from_account_no to_account_no
                       (py_round2 (random_uniform 1 100 u)))
                    transfer_response s)
           else returns ()))))))
       else
         then_do (get_user_accounts client) (\<lambda>_. returns ())))"

subsection \<open>HistoryUser\<close>

definition history_request :: "user \<Rightarrow> string \<Rightarrow> request" where
  "history_request s account_no =
     \<lparr>verb = GET, url = ''/api/v1/account/transactions/'' @ account_no,
      name = ''Account - View Transaction History'', headers = Some (get_headers s),
      payload = NoPayload\<rparr>"

definition is_list :: "json \<Rightarrow> bool" where
  "is_list v = (case v of JArr xs \<Rightarrow> True | _ \<Rightarrow> False)"

definition history_response :: "response \<Rightarrow> (mark \<times> unit) action" where
  "history_response response =
     (if status_code response = 0 then returns (Failure, ())
      else if status_code response = 200 then
        try_except (\<lambda>e. e = JSONDecodeError)
          (then_do (lift (response_json response)) (\<lambda>transactions.
             if is_list transactions then returns (Success, ()) else returns (Failure, ())))
          (returns (Failure, ()))
      else if status_code response = 401 then returns (Failure, ())
      else if status_code response = 404 then returns (Failure, ())
      else returns (Failure, ()))"

definition fallback_response :: "response \<Rightarrow> (mark \<times> unit) action" where
  "fallback_response response =
     (if status_code response \<in> set [200, 404] then returns (Success, ())
      else returns (Failure, ()))"

text \<open>\<open>k\<close> is the draw of the one \<^verbatim>\<open>random.choice\<close> call the task makes.\<close>

definition view_transaction_history :: "client \<Rightarrow> nat \<Rightarrow> unit action" where
  "view_transaction_history client k =
     then_do (get_user_accounts client) (\<lambda>accounts.
     then_do (lift (truthy_and_len_ge accounts 1)) (\<lambda>some.
       if some then
         then_do (lift (random_choice k accounts)) (\<lambda>account.
         then_do (lift (py_get account ''accountno'')) (\<lambda>account_no.
           if py_truthy account_no then
             (\<lambda>s. with_response client (history_request s (py_str account_no))
                    history_response s)
           else returns ()))
       else
         then_do (lift (choice k TEST_ACCOUNTS)) (\<lambda>test_account.
           (\<lambda>s. with_response client (history_request s (show_int test_account))
                  fallback_response s))))"

subsection \<open>Notions of the specification\<close>

text \<open>
  "The JSON body has the field \<open>key\<close>, with value \<open>v\<close>": the body is an object and binds
  \<open>key\<close> to \<open>v\<close>. This is how the specification speaks of fields; the code reads them with
  \<^verbatim>\<open>get\<close>, modelled by \<open>py_get\<close>.
\<close>

definition field_of :: "json \<Rightarrow> string \<Rightarrow> json option" where
  "field_of data key = (case data of JObj kvs \<Rightarrow> map_of kvs key | _ \<Rightarrow> None)"

definition body_field :: "response \<Rightarrow> string \<Rightarrow> json option" where
  "body_field response key =
     (case decoded response of None \<Rightarrow> None | Some data \<Rightarrow> field_of data key)"

text \<open>A client that answers every request with the same response.\<close>

definition always :: "response \<Rightarrow> client" where
  "always response n rq = Inr response"

text \<open>A user object before \<^verbatim>\<open>on_start\<close>, and one that is logged in with two accounts cached.\<close>

definition new_user :: user where
  "new_user =
     \<lparr>token = JNull, user_id = JNull, accounts = JArr [], email = [], password = [], sent = []\<rparr>"

definition two_accounts :: json where
  "two_accounts =
     JArr [JObj [(''accountno'', JInt 1000001)], JObj [(''accountno'', JInt 1000002)]]"

definition active_user :: user where
  "active_user =
     \<lparr>token = JStr ''abc'', user_id = JInt 7, accounts = two_accounts,
      email = ''user1@example.com'', password = ''password123'', sent = []\<rparr>"

section \<open>Properties\<close>

lemmas action_defs = returns_def lift_def then_do_def get_self_def assign_def try_except_def
  any_exception_def with_response_def

subsection \<open>Text\<close>



subsection \<open>Request headers\<close>

text \<open>
  C10. For every user object, \<open>get_headers\<close> returns a dict that holds
  \<^verbatim>\<open>Content-Type: application/json\<close> and nothing else but possibly \<^verbatim>\<open>Authorization\<close>; the
  \<^verbatim>\<open>Authorization\<close> entry is there exactly when the token is set, and it is \<^verbatim>\<open>"Bearer "\<close>
  followed by the token. "Set" is the truth value Python gives the token: \<^verbatim>\<open>None\<close> is not
  set, and a string is set exactly when it is not empty.
\<close>

theorem get_headers_bearer:
  "get_headers s ''Content-Type'' = Some ''application/json''
   \<and> get_headers s ''Authorization''
       = (if py_truthy (token s) then Some (''Bearer '' @ py_str (token s)) else None)
   \<and> dom (get_headers s) \<subseteq> {''Content-Type'', ''Authorization''}
   \<and> \<not> py_truthy JNull
   \<and> (\<forall>t. py_truthy (JStr t) = (t \<noteq> []))"
  by (auto simp: get_headers_def split: if_splits)

subsection \<open>Response classification\<close>

lemma validate_response_eq:
  "validate_response response success_field =
     Inr (status_code response = 200
          \<and> \<not> (\<exists>field v. success_field = Some field \<and> field \<noteq> []
                 \<and> body_field response field = Some v \<and> py_truthy v
                 \<and> \<not> contains ''SUCCESS'' (upper (py_str v))))"
  by (auto simp: validate_response_def validate_json_def response_json_def py_get_def
        py_get_default_def body_field_def field_of_def split: option.splits json.splits sum.splits)

text \<open>
  C9. For a response with status 200, \<open>validate_response\<close> returns \<^verbatim>\<open>True\<close> when the body is
  not JSON, and also when a field name is given and the decoded body has no such field or
  binds it to a falsy value. It returns \<^verbatim>\<open>False\<close> exactly for a status other than 200 and
  for a field that is there with a truthy value whose text, in upper case, does not contain
  \<^verbatim>\<open>SUCCESS\<close>. It raises nothing: the result is \<^verbatim>\<open>True\<close> or \<^verbatim>\<open>False\<close>.
\<close>

theorem validate_response_lenient:
  "(status_code response = 200 \<and> decoded response = None
      \<longrightarrow> validate_response response success_field = Inr True)
   \<and> (status_code response = 200 \<and> success_field = Some field
        \<and> (\<forall>v. body_field response field = Some v \<longrightarrow> \<not> py_truthy v)
      \<longrightarrow> validate_response response success_field = Inr True)
   \<and> (validate_response response success_field = Inr False
      \<longleftrightarrow> status_code response \<noteq> 200
          \<or> (\<exists>f v. success_field = Some f \<and> f \<noteq> [] \<and> body_field response f = Some v
                 \<and> py_truthy v \<and> \<not> contains ''SUCCESS'' (upper (py_str v))))
   \<and> (validate_response response success_field = Inr True
        \<or> validate_response response success_field = Inr False)"
  unfolding validate_response_eq by (auto simp: body_field_def)

theorem validate_response_lenient_witness:
  "validate_response \<lparr>status_code = 200, decoded = None\<rparr> (Some ''transactionStatus'') = Inr True
   \<and> validate_response \<lparr>status_code = 200, decoded = Some (JObj [(''id'', JInt 5)])\<rparr>
         (Some ''transactionStatus'') = Inr True
   \<and> validate_response
         \<lparr>status_code = 200, decoded = Some (JObj [(''transactionStatus'', JStr ''Failed'')])\<rparr>
         (Some ''transactionStatus'') = Inr False
   \<and> validate_response
         \<lparr>status_code = 200, decoded = Some (JObj [(''transactionStatus'', JStr ''Success'')])\<rparr>
         (Some ''transactionStatus'') = Inr True
   \<and> validate_response
         \<lparr>status_code = 500, decoded = Some (JObj [(''transactionStatus'', JStr ''Success'')])\<rparr>
         (Some ''transactionStatus'') = Inr False"
proof -
  let ?f = "''transactionStatus''"
  let ?failed = "\<lparr>status_code = 200, decoded = Some (JObj [(?f, JStr ''Failed'')])\<rparr>"
  let ?ok = "\<lparr>status_code = 200, decoded = Some (JObj [(?f, JStr ''Success'')])\<rparr>"
  let ?down = "\<lparr>status_code = 500, decoded = Some (JObj [(?f, JStr ''Success'')])\<rparr>"
  have 1: "validate_response \<lparr>status_code = 200, decoded = None\<rparr> (Some ?f) = Inr True"
    using validate_response_lenient
      [of "\<lparr>status_code = 200, decoded = None\<rparr>" "Some ?f" ?f]
    by simp
  have 2: "validate_response \<lparr>status_code = 200, decoded = Some (JObj [(''id'', JInt 5)])\<rparr>
             (Some ?f) = Inr True"
    using validate_response_lenient
      [of "\<lparr>status_code = 200, decoded = Some (JObj [(''id'', JInt 5)])\<rparr>" "Some ?f" ?f]
    by (simp add: body_field_def field_of_def)
  have 3: "validate_response ?failed (Some ?f) = Inr False"
    using validate_response_lenient [of ?failed "Some ?f" ?f]
    by (simp add: body_field_def field_of_def py_str_def upper_def upper_char_def)
  have 4: "validate_response ?ok (Some ?f) = Inr True"
    using validate_response_lenient [of ?ok "Some ?f" ?f]
    by (auto simp: body_field_def field_of_def py_str_def upper_def upper_char_def)
  have 5: "validate_response ?down (Some ?f) = Inr False"
    using validate_response_lenient [of ?down "Some ?f" ?f]
    by simp
  from 1 2 3 4 5 show ?thesis by simp
qed

lemma transfer_response_200:
  "status_code response = 200 \<Longrightarrow>
   transfer_response response s =
     (Inr (if (\<exists>v. body_field response ''transactionStatus'' = Some v \<and> py_truthy v
                  \<and> \<not> contains ''SUCCESS'' (upper (py_str v)))
           then Failure else Success, ()), s)"
  by (auto simp: transfer_response_def validate_response_eq action_defs)



subsection \<open>Login\<close>

lemma login_ok_mark:
  "fst (login_ok response s) = Inr (Success, ()) \<longleftrightarrow>
     (\<exists>t ud u. body_field response ''jwtToken'' = Some t \<and> py_truthy t
        \<and> body_field response ''user'' = Some ud \<and> field_of ud ''userId'' = Some u \<and> py_truthy u)"
  by (auto simp: login_ok_def action_defs response_json_def py_get_def py_get_default_def
        body_field_def field_of_def split: option.splits json.splits sum.splits prod.splits)

lemma login_ok_sent: "sent (snd (login_ok response s)) = sent s"
  by (auto simp: login_ok_def action_defs response_json_def py_get_def py_get_default_def
        split: option.splits json.splits sum.splits prod.splits)

lemma login_ok_result:
  "fst (login_ok response s) \<in>
     {Inr (Success, ()), Inr (Failure, ()), Inl JSONDecodeError, Inl AttributeError}"
  by (auto simp: login_ok_def action_defs response_json_def py_get_def py_get_default_def
        split: option.splits json.splits sum.splits prod.splits)

lemma authenticate_never_raises: "fst (authenticate client s) = Inr ()"
  by (auto simp: authenticate_def action_defs split: sum.splits prod.splits)

lemma authenticate_200:
  assumes "client (length (sent s)) (login_request s) = Inr response"
    and "status_code response = 200"
  shows "authenticate client s =
     (Inr (),
      (snd (login_ok response s))
        \<lparr>sent := sent s @
           [(login_request s,
             Marked (if fst (login_ok response s) = Inr (Success, ()) then Success else Failure))]\<rparr>)"
proof -
  obtain r s1 where eq: "login_ok response s = (r, s1)"
    by (cases "login_ok response s")
  have s1: "sent s1 = sent s"
    using login_ok_sent [of response s] eq by simp
  have r: "r \<in> {Inr (Success, ()), Inr (Failure, ()), Inl JSONDecodeError, Inl AttributeError}"
    using login_ok_result [of response s] eq by simp
  show ?thesis
    using assms eq s1 r
    by (auto simp: authenticate_def login_response_def action_defs)
qed

lemma authenticate_client_raises:
  "client (length (sent s)) (login_request s) = Inl e \<Longrightarrow>
   authenticate client s = (Inr (), s\<lparr>sent := sent s @ [(login_request s, NoResponse e)]\<rparr>)"
  by (simp add: authenticate_def action_defs)

text \<open>
  C4. Whenever the login response has status 200 and its JSON body lacks the field
  \<^verbatim>\<open>jwtToken\<close> or lacks \<^verbatim>\<open>userId\<close> under \<^verbatim>\<open>user\<close>, \<open>authenticate\<close> returns normally and
  the login request is recorded as failed.
\<close>

theorem login_missing_field_fails:
  assumes "client (length (sent s)) (login_request s) = Inr response"
    and "status_code response = 200"
    and "body_field response ''jwtToken'' = None
         \<or> \<not> (\<exists>ud u. body_field response ''user'' = Some ud \<and> field_of ud ''userId'' = Some u)"
  shows "\<exists>s'. authenticate client s = (Inr (), s')
           \<and> sent s' = sent s @ [(login_request s, Marked Failure)]"
proof -
  have "fst (login_ok response s) \<noteq> Inr (Success, ())"
    using assms(3) unfolding login_ok_mark by auto
  then show ?thesis
    using authenticate_200 [of client s response] assms(1,2) by simp
qed

theorem login_missing_field_fails_witness:
  "always \<lparr>status_code = 200, decoded = Some (JObj [(''jwtToken'', JStr ''abc'')])\<rparr>
      (length (sent new_user)) (login_request new_user)
    = Inr \<lparr>status_code = 200, decoded = Some (JObj [(''jwtToken'', JStr ''abc'')])\<rparr>
   \<and> body_field \<lparr>status_code = 200, decoded = Some (JObj [(''jwtToken'', JStr ''abc'')])\<rparr>
         ''user'' = None
   \<and> fst (authenticate
              (always \<lparr>status_code = 200, decoded = Some (JObj [(''jwtToken'', JStr ''abc'')])\<rparr>)
              new_user) = Inr ()
   \<and> sent (snd (authenticate
              (always \<lparr>status_code = 200, decoded = Some (JObj [(''jwtToken'', JStr ''abc'')])\<rparr>)
              new_user))
      = [(login_request new_user, Marked Failure)]"
proof -
  let ?r = "\<lparr>status_code = 200, decoded = Some (JObj [(''jwtToken'', JStr ''abc'')])\<rparr>"
  have a: "always ?r (length (sent new_user)) (login_request new_user) = Inr ?r"
    by (simp add: always_def)
  have b: "status_code ?r = 200"
    by simp
  have c: "body_field ?r ''user'' = None"
    by (simp add: body_field_def field_of_def)
  then have d: "body_field ?r ''jwtToken'' = None
      \<or> \<not> (\<exists>ud u. body_field ?r ''user'' = Some ud \<and> field_of ud ''userId'' = Some u)"
    by simp
  obtain s' where "authenticate (always ?r) new_user = (Inr (), s')"
    and "sent s' = sent new_user @ [(login_request new_user, Marked Failure)]"
    using login_missing_field_fails [of "always ?r" new_user ?r] a b d by blast
  then show ?thesis
    using a c by (simp add: new_user_def)
qed

text \<open>
  C3 on the code: the login response has status 200 and the body \<^verbatim>\<open>{"jwtToken": "abc"}\<close>,
  with no \<^verbatim>\<open>user\<close>. The login is recorded as failed, and the user object keeps the token:
  line 137 assigns \<^verbatim>\<open>self.token\<close> before line 141 checks that both values are there.
\<close>

theorem token_kept_after_failed_login:
  "on_start
     (always \<lparr>status_code = 200, decoded = Some (JObj [(''jwtToken'', JStr ''abc'')])\<rparr>)
     0 new_user
   = (Inr (),
      \<lparr>token = JStr ''abc'', user_id = JNull, accounts = JArr [],
       email = ''user1@example.com'', password = ''password123'',
       sent = [(\<lparr>verb = POST, url = ''/api/v1/login'', name = ''Auth - Login'', headers = None,
                 payload = LoginData ''user1@example.com'' ''password123''\<rparr>,
                Marked Failure)]\<rparr>)"
  by (simp add: on_start_def authenticate_def login_response_def login_ok_def login_request_def
        response_json_def py_get_def py_get_default_def choice_def TEST_CREDENTIALS_def
        always_def new_user_def action_defs)

text \<open>
  C8 on the code: the login response has status 200 and the body
  \<^verbatim>\<open>{"jwtToken": "abc", "user": null}\<close>. Line 139 raises AttributeError, after line 137 has
  stored the token. \<open>authenticate\<close> catches the exception and returns, the login is
  recorded as failed, and the headers of the next request carry the token.
\<close>

theorem token_kept_after_exception:
  "fst (login_ok
          \<lparr>status_code = 200,
            decoded = Some (JObj [(''jwtToken'', JStr ''abc''), (''user'', JNull)])\<rparr>
          new_user) = Inl AttributeError
   \<and> fst (on_start
          (always \<lparr>status_code = 200,
                    decoded = Some (JObj [(''jwtToken'', JStr ''abc''), (''user'', JNull)])\<rparr>)
          0 new_user) = Inr ()
   \<and> token (snd (on_start
          (always \<lparr>status_code = 200,
                    decoded = Some (JObj [(''jwtToken'', JStr ''abc''), (''user'', JNull)])\<rparr>)
          0 new_user)) = JStr ''abc''
   \<and> map snd (sent (snd (on_start
          (always \<lparr>status_code = 200,
                    decoded = Some (JObj [(''jwtToken'', JStr ''abc''), (''user'', JNull)])\<rparr>)
          0 new_user))) = [Marked Failure]
   \<and> get_headers (snd (on_start
          (always \<lparr>status_code = 200,
                    decoded = Some (JObj [(''jwtToken'', JStr ''abc''), (''user'', JNull)])\<rparr>)
          0 new_user)) ''Authorization'' = Some ''Bearer abc''"
  by (simp add: on_start_def authenticate_def login_response_def login_ok_def login_request_def
        response_json_def py_get_def py_get_default_def choice_def TEST_CREDENTIALS_def
        always_def new_user_def get_headers_def py_str_def action_defs)

subsection \<open>The account cache\<close>

lemmas accounts_defs = get_user_accounts_def accounts_response_def response_json_def py_len_def
  action_defs

lemma get_user_accounts_total: "\<exists>v. fst (get_user_accounts client s) = Inr v"
  by (auto simp: accounts_defs split: option.splits json.splits sum.splits prod.splits)

lemma get_user_accounts_frame:
  "token (snd (get_user_accounts client s)) = token s
   \<and> user_id (snd (get_user_accounts client s)) = user_id s
   \<and> email (snd (get_user_accounts client s)) = email s
   \<and> password (snd (get_user_accounts client s)) = password s"
  by (auto simp: accounts_defs split: option.splits json.splits sum.splits prod.splits)

lemma get_user_accounts_sent:
  "sent (snd (get_user_accounts client s)) = sent s
   \<or> (\<exists>out. sent (snd (get_user_accounts client s)) = sent s @ [(accounts_request s, out)])"
  by (auto simp: accounts_defs split: option.splits json.splits sum.splits prod.splits)

lemma get_user_accounts_cached:
  "py_truthy (user_id s) \<Longrightarrow> py_truthy (accounts s) \<Longrightarrow>
   get_user_accounts client s = (Inr (accounts s), s)"
  by (simp add: get_user_accounts_def returns_def)

lemma get_user_accounts_returned:
  "get_user_accounts client s = (Inr v, s1) \<Longrightarrow> py_truthy v \<Longrightarrow>
   py_truthy (user_id s1) \<and> accounts s1 = v"
  by (auto simp: accounts_defs split: option.splits json.splits sum.splits prod.splits if_splits)

text \<open>
  C5. Once \<open>get_user_accounts\<close> has returned a non-empty account list, every later call in
  the session, whatever the server would answer, returns the same list and leaves the user
  object as it is: no request is added to \<open>sent\<close>. The same holds in any state with a user
  id and a non-empty cache. On a failure the method returns the empty list: without a user
  id (and then without a request), and when the request raises, or the response has a
  status other than 200 (0 is a connection failure), or its body is not JSON; the cache
  then stays as it was and the request is not recorded as passed.
\<close>

theorem account_cache:
  "(get_user_accounts client s = (Inr (JArr xs), s1) \<and> xs \<noteq> []
      \<longrightarrow> get_user_accounts client' s1 = (Inr (JArr xs), s1))
   \<and> (py_truthy (user_id s) \<and> py_truthy (accounts s)
      \<longrightarrow> get_user_accounts client s = (Inr (accounts s), s))
   \<and> (\<not> py_truthy (user_id s) \<longrightarrow> get_user_accounts client s = (Inr (JArr []), s))
   \<and> (py_truthy (user_id s) \<and> \<not> py_truthy (accounts s)
        \<and> (client (length (sent s)) (accounts_request s) = Inl e
            \<or> client (length (sent s)) (accounts_request s) = Inr response
               \<and> (status_code response \<noteq> 200 \<or> decoded response = None))
      \<longrightarrow> fst (get_user_accounts client s) = Inr (JArr [])
          \<and> accounts (snd (get_user_accounts client s)) = accounts s
          \<and> (\<exists>out. sent (snd (get_user_accounts client s)) = sent s @ [(accounts_request s, out)]
                 \<and> out \<noteq> Marked Success))"
proof (intro conjI impI)
  assume a: "get_user_accounts client s = (Inr (JArr xs), s1) \<and> xs \<noteq> []"
  then have "py_truthy (user_id s1) \<and> accounts s1 = JArr xs"
    using get_user_accounts_returned [of client s "JArr xs" s1] by simp
  then show "get_user_accounts client' s1 = (Inr (JArr xs), s1)"
    using a get_user_accounts_cached [of s1 client'] by simp
next
  assume "py_truthy (user_id s) \<and> py_truthy (accounts s)"
  then show "get_user_accounts client s = (Inr (accounts s), s)"
    by (simp add: get_user_accounts_cached)
next
  assume "\<not> py_truthy (user_id s)"
  then show "get_user_accounts client s = (Inr (JArr []), s)"
    by (simp add: get_user_accounts_def returns_def)
next
  assume f: "py_truthy (user_id s) \<and> \<not> py_truthy (accounts s)
        \<and> (client (length (sent s)) (accounts_request s) = Inl e
            \<or> client (length (sent s)) (accounts_request s) = Inr response
               \<and> (status_code response \<noteq> 200 \<or> decoded response = None))"
  then show "fst (get_user_accounts client s) = Inr (JArr [])"
    by (auto simp: accounts_defs split: option.splits sum.splits prod.splits)
  from f show "accounts (snd (get_user_accounts client s)) = accounts s"
    by (auto simp: accounts_defs split: option.splits sum.splits prod.splits)
  from f show "\<exists>out. sent (snd (get_user_accounts client s)) = sent s @ [(accounts_request s, out)]
                 \<and> out \<noteq> Marked Success"
    by (auto simp: accounts_defs split: option.splits sum.splits prod.splits)
qed


theorem account_cache_witness:
  "get_user_accounts (always \<lparr>status_code = 200, decoded = Some two_accounts\<rparr>)
      (active_user\<lparr>accounts := JArr []\<rparr>)
    = (Inr two_accounts,
       active_user\<lparr>accounts := two_accounts,
         sent := [(accounts_request (active_user\<lparr>accounts := JArr []\<rparr>), Marked Success)]\<rparr>)
   \<and> get_user_accounts (always \<lparr>status_code = 500, decoded = None\<rparr>)
        (active_user\<lparr>accounts := two_accounts,
           sent := [(accounts_request (active_user\<lparr>accounts := JArr []\<rparr>), Marked Success)]\<rparr>)
      = (Inr two_accounts,
         active_user\<lparr>accounts := two_accounts,
           sent := [(accounts_request (active_user\<lparr>accounts := JArr []\<rparr>), Marked Success)]\<rparr>)
   \<and> get_user_accounts (always \<lparr>status_code = 500, decoded = None\<rparr>) active_user
      = (Inr two_accounts, active_user)
   \<and> get_user_accounts (always \<lparr>status_code = 200, decoded = Some two_accounts\<rparr>) new_user
      = (Inr (JArr []), new_user)
   \<and> fst (get_user_accounts (always \<lparr>status_code = 500, decoded = None\<rparr>)
             (active_user\<lparr>accounts := JArr []\<rparr>)) = Inr (JArr [])"
proof -
  let ?ok = "always \<lparr>status_code = 200, decoded = Some two_accounts\<rparr>"
  let ?down = "always \<lparr>status_code = 500, decoded = None\<rparr>"
  let ?s = "active_user\<lparr>accounts := JArr []\<rparr>"
  let ?s1 = "active_user\<lparr>accounts := two_accounts,
               sent := [(accounts_request ?s, Marked Success)]\<rparr>"
  let ?xs = "[JObj [(''accountno'', JInt 1000001)], JObj [(''accountno'', JInt 1000002)]]"
  have 1: "get_user_accounts ?ok ?s = (Inr (JArr ?xs), ?s1) \<and> ?xs \<noteq> []"
    by (simp add: accounts_defs always_def active_user_def two_accounts_def)
  have 2: "get_user_accounts ?down ?s1 = (Inr (JArr ?xs), ?s1)"
    using account_cache [of ?ok ?s ?xs ?s1 ?down] 1 by blast
  have h3: "py_truthy (user_id active_user) \<and> py_truthy (accounts active_user)"
    by (simp add: active_user_def two_accounts_def)
  have 3: "get_user_accounts ?down active_user = (Inr (accounts active_user), active_user)"
    using account_cache [of ?down active_user] h3 by blast
  have h4: "\<not> py_truthy (user_id new_user)"
    by (simp add: new_user_def)
  have 4: "get_user_accounts ?ok new_user = (Inr (JArr []), new_user)"
    using account_cache [of ?ok new_user] h4 by blast
  have h5: "py_truthy (user_id ?s) \<and> \<not> py_truthy (accounts ?s)
      \<and> (?down (length (sent ?s)) (accounts_request ?s) = Inl OtherException
          \<or> ?down (length (sent ?s)) (accounts_request ?s) = Inr \<lparr>status_code = 500, decoded = None\<rparr>
             \<and> (status_code \<lparr>status_code = 500, decoded = None\<rparr> \<noteq> 200
                 \<or> decoded \<lparr>status_code = 500, decoded = None\<rparr> = None))"
    by (simp add: always_def active_user_def)
  have 5: "fst (get_user_accounts ?down ?s) = Inr (JArr [])"
    using account_cache [of ?down ?s _ _ _ OtherException "\<lparr>status_code = 500, decoded = None\<rparr>"]
      h5 by blast
  have acc: "accounts active_user = two_accounts"
    by (simp add: active_user_def)
  have two: "two_accounts = JArr ?xs"
    by (simp add: two_accounts_def)
  from 1 2 3 4 5 show ?thesis
    unfolding acc two by blast
qed

subsection \<open>Transaction history without accounts\<close>

lemma choice_test_accounts:
  "choice k TEST_ACCOUNTS = Inr 1000001 \<or> choice k TEST_ACCOUNTS = Inr 1000002
   \<or> choice k TEST_ACCOUNTS = Inr 1000003"
proof -
  have "k mod 3 = 0 \<or> k mod 3 = 1 \<or> k mod 3 = 2"
    by arith
  then show ?thesis
    by (auto simp: choice_def TEST_ACCOUNTS_def)
qed

lemma show_test_accounts:
  "show_int 1000001 = ''1000001'' \<and> show_int 1000002 = ''1000002''
   \<and> show_int 1000003 = ''1000003''"
  by (simp add: show_int_def show_nat.simps digit_char_def)

text \<open>
  C7. When \<open>view_transaction_history\<close> runs and \<open>get_user_accounts\<close> gives it no account
  (a falsy value: the empty list), it sends a GET for the transaction history of one of
  the three account numbers of \<open>TEST_ACCOUNTS\<close>, 1000001, 1000002 or 1000003, and records
  the response as passed exactly when its status is 200 or 404.
\<close>

theorem history_fallback:
  assumes "get_user_accounts client s = (Inr accs, s1)"
    and "\<not> py_truthy accs"
    and "choice k TEST_ACCOUNTS = Inr test_account"
    and "client (length (sent s1)) (history_request s1 (show_int test_account)) = Inr response"
  shows "view_transaction_history client k s =
     (Inr (),
      s1\<lparr>sent := sent s1 @
         [(history_request s1 (show_int test_account),
           Marked (if status_code response = 200 \<or> status_code response = 404
                   then Success else Failure))]\<rparr>)
   \<and> verb (history_request s1 (show_int test_account)) = GET
   \<and> url (history_request s1 (show_int test_account))
       \<in> {''/api/v1/account/transactions/1000001'', ''/api/v1/account/transactions/1000002'',
          ''/api/v1/account/transactions/1000003''}"
proof -
  have "test_account = 1000001 \<or> test_account = 1000002 \<or> test_account = 1000003"
    using choice_test_accounts [of k] assms(3) by auto
  then have u: "url (history_request s1 (show_int test_account))
       \<in> {''/api/v1/account/transactions/1000001'', ''/api/v1/account/transactions/1000002'',
          ''/api/v1/account/transactions/1000003''}"
    using show_test_accounts by (auto simp: history_request_def)
  have "view_transaction_history client k s =
     (Inr (),
      s1\<lparr>sent := sent s1 @
         [(history_request s1 (show_int test_account),
           Marked (if status_code response = 200 \<or> status_code response = 404
                   then Success else Failure))]\<rparr>)"
    using assms
    by (simp add: view_transaction_history_def truthy_and_len_ge_def fallback_response_def
          action_defs)
  then show ?thesis
    using u by (simp add: history_request_def)
qed

theorem history_fallback_witness:
  "get_user_accounts (always \<lparr>status_code = 404, decoded = None\<rparr>) new_user
     = (Inr (JArr []), new_user)
   \<and> \<not> py_truthy (JArr [])
   \<and> choice 4 TEST_ACCOUNTS = Inr 1000002
   \<and> view_transaction_history (always \<lparr>status_code = 404, decoded = None\<rparr>) 4 new_user
     = (Inr (),
        new_user\<lparr>sent := [(history_request new_user ''1000002'', Marked Success)]\<rparr>)
   \<and> url (history_request new_user ''1000002'') = ''/api/v1/account/transactions/1000002''"
proof -
  let ?c = "always \<lparr>status_code = 404, decoded = None\<rparr>"
  have 1: "get_user_accounts ?c new_user = (Inr (JArr []), new_user)"
    by (simp add: get_user_accounts_def new_user_def returns_def)
  have 2: "\<not> py_truthy (JArr [])"
    by simp
  have 3: "choice 4 TEST_ACCOUNTS = Inr 1000002"
    by (simp add: choice_def TEST_ACCOUNTS_def)
  have 4: "?c (length (sent new_user)) (history_request new_user (show_int 1000002))
             = Inr \<lparr>status_code = 404, decoded = None\<rparr>"
    by (simp add: always_def)
  have s: "show_int 1000002 = ''1000002''"
    using show_test_accounts by simp
  have e: "sent new_user = []"
    by (simp add: new_user_def)
  have 5: "view_transaction_history ?c 4 new_user =
     (Inr (),
      new_user\<lparr>sent := sent new_user @
         [(history_request new_user (show_int 1000002),
           Marked (if status_code \<lparr>status_code = 404, decoded = None\<rparr> = 200
                      \<or> status_code \<lparr>status_code = 404, decoded = None\<rparr> = 404
                   then Success else Failure))]\<rparr>)"
    using history_fallback [of ?c new_user "JArr []" new_user 4 1000002
        "\<lparr>status_code = 404, decoded = None\<rparr>"] 1 2 3 4
    by blast
  have 6: "url (history_request new_user ''1000002'') = ''/api/v1/account/transactions/1000002''"
    by (simp add: history_request_def)
  from 1 2 3 5 6 show ?thesis
    unfolding s e by simp
qed

subsection \<open>The transfer request\<close>

lemma round_half_even_cases:
  "round_half_even y = \<lfloor>y\<rfloor> \<or> (round_half_even y = \<lfloor>y\<rfloor> + 1 \<and> of_int \<lfloor>y\<rfloor> < y)"
  by (auto simp: round_half_even_def)

lemma round_half_even_bounds:
  assumes "of_int lo \<le> y" and "y \<le> of_int hi"
  shows "lo \<le> round_half_even y \<and> round_half_even y \<le> hi"
proof -
  have l: "lo \<le> \<lfloor>y\<rfloor>"
    using assms(1) by (simp add: le_floor_iff)
  have h: "\<lfloor>y\<rfloor> \<le> hi"
    using assms(2) by (simp add: floor_le_iff)
  have "\<lfloor>y\<rfloor> + 1 \<le> hi" if "of_int \<lfloor>y\<rfloor> < y"
  proof -
    have "of_int \<lfloor>y\<rfloor> < (of_int hi :: rat)"
      using that assms(2) by simp
    then show ?thesis by simp
  qed
  then show ?thesis
    using l h round_half_even_cases [of y] by auto
qed

lemma py_round2_range:
  assumes "1 \<le> x" and "x \<le> 100"
  shows "1 \<le> py_round2 x \<and> py_round2 x \<le> 100 \<and> (\<exists>n::int. py_round2 x = of_int n / 100)"
proof -
  have "of_int 100 \<le> x * 100" and "x * 100 \<le> of_int 10000"
    using assms by simp_all
  then have "100 \<le> round_half_even (x * 100) \<and> round_half_even (x * 100) \<le> 10000"
    by (rule round_half_even_bounds)
  then have "(100::rat) \<le> of_int (round_half_even (x * 100))
      \<and> of_int (round_half_even (x * 100)) \<le> (10000::rat)"
    by (metis of_int_le_iff of_int_numeral)
  then show ?thesis
    by (auto simp: py_round2_def)
qed

lemma random_uniform_range:
  "a \<le> b \<Longrightarrow> a \<le> random_uniform a b u \<and> random_uniform a b u \<le> b"
proof -
  assume ab: "a \<le> b"
  have f: "0 \<le> frac u" "frac u \<le> 1"
    using frac_lt_1 [of u] by (simp_all add: less_imp_le)
  have "0 \<le> (b - a) * frac u"
    using ab f(1) by simp
  moreover have "(b - a) * frac u \<le> (b - a) * 1"
    using ab f(2) by (intro mult_left_mono) simp_all
  ultimately show ?thesis
    by (simp add: random_uniform_def)
qed

lemma round_half_even_nearest:
  "\<bar>of_int (round_half_even y) - y\<bar> \<le> 1 / 2
   \<and> (\<bar>of_int (round_half_even y) - y\<bar> = 1 / 2 \<longrightarrow> even (round_half_even y))"
proof -
  define d where "d = y - of_int \<lfloor>y\<rfloor>"
  have d: "0 \<le> d" "d < 1"
    unfolding d_def by linarith+
  have y: "y = of_int \<lfloor>y\<rfloor> + d"
    by (simp add: d_def)
  consider "d < 1 / 2" | "1 / 2 < d" | "d = 1 / 2"
    by linarith
  then show ?thesis
  proof cases
    case 1
    then have "round_half_even y = \<lfloor>y\<rfloor>"
      by (simp add: round_half_even_def d_def)
    then have "\<bar>of_int (round_half_even y) - y\<bar> = d"
      using d by (simp add: d_def)
    then show ?thesis
      using 1 by simp
  next
    case 2
    then have "round_half_even y = \<lfloor>y\<rfloor> + 1"
      by (simp add: round_half_even_def d_def)
    then have "\<bar>of_int (round_half_even y) - y\<bar> = 1 - d"
      using d by (simp add: d_def)
    then show ?thesis
      using 2 by simp
  next
    case 3
    then have r: "round_half_even y = (if even \<lfloor>y\<rfloor> then \<lfloor>y\<rfloor> else \<lfloor>y\<rfloor> + 1)"
      by (simp add: round_half_even_def d_def)
    have "\<bar>of_int (round_half_even y) - y\<bar> = 1 / 2"
      using 3 by (simp add: r d_def)
    moreover have "even (round_half_even y)"
      by (simp add: r)
    ultimately show ?thesis
      by simp
  qed
qed

lemma py_round2_nearest:
  "\<bar>py_round2 x - x\<bar> \<le> 1 / 200
   \<and> (\<bar>py_round2 x - x\<bar> = 1 / 200 \<longrightarrow> even (round_half_even (x * 100)))"
proof -
  have "py_round2 x - x = (of_int (round_half_even (x * 100)) - x * 100) / 100"
    by (simp add: py_round2_def diff_divide_distrib)
  then have "\<bar>py_round2 x - x\<bar> = \<bar>of_int (round_half_even (x * 100)) - x * 100\<bar> / 100"
    by (simp only: abs_divide abs_numeral)
  then show ?thesis
    using round_half_even_nearest [of "x * 100"] by auto
qed

lemma other_accounts_sound:
  "other_accounts accs from_account = Inr others \<Longrightarrow> acc \<in> set others \<Longrightarrow>
   acc \<in> set accs
   \<and> (\<exists>a b. py_get acc ''accountno'' = Inr a \<and> py_get from_account ''accountno'' = Inr b
          \<and> \<not> py_eq a b)"
proof (induction accs arbitrary: others)
  case Nil
  then show ?case by simp
next
  case (Cons x accs)
  then show ?case
    by (auto split: sum.splits if_splits)
qed

lemma choice_member: "choice k xs = Inr x \<Longrightarrow> x \<in> set xs"
  by (auto simp: choice_def split: if_splits)


lemma py_eq_keys_refl:
  "(\<And>k v. map_of a k = Some v \<Longrightarrow> py_eq v v) \<Longrightarrow> set ks \<subseteq> fst ` set a \<Longrightarrow>
   py_eq_keys ks a a"
proof (induction ks)
  case Nil
  then show ?case by simp
next
  case (Cons k ks)
  from Cons.prems(2) have "k \<in> fst ` set a" by simp
  then obtain v where v: "map_of a k = Some v"
    by (metis domD dom_map_of_conv_image_fst)
  with Cons show ?case by simp
qed

lemma py_eq_list_refl: "(\<And>x. x \<in> set xs \<Longrightarrow> py_eq x x) \<Longrightarrow> py_eq_list xs xs"
  by (induction xs) auto

lemma py_eq_refl: "py_eq v v"
proof (induction v)
  case (JArr xs)
  then show ?case by (simp add: py_eq_list_refl)
next
  case (JObj a)
  have "py_eq_keys (map fst a) a a"
  proof (rule py_eq_keys_refl)
    fix k v assume "map_of a k = Some v"
    then have "(k, v) \<in> set a" by (rule map_of_SomeD)
    then show "py_eq v v" using JObj by fastforce
  qed simp
  then show ?case by simp
qed simp_all

lemma transfer_pick:
  assumes "truthy_and_len_ge accs 2 = Inr True"
    and "random_choice i accs = Inr from_account"
    and "py_iter accs = Inr elems"
    and "other_accounts elems from_account = Inr others"
    and "choice j others = Inr to_account"
    and "py_get from_account ''accountno'' = Inr f"
    and "py_get to_account ''accountno'' = Inr t"
  shows "\<exists>xs. accs = JArr xs \<and> 2 \<le> length xs \<and> from_account \<in> set xs \<and> to_account \<in> set xs
           \<and> \<not> py_eq t f"
proof -
  have m: "to_account \<in> set others"
    using assms(5) by (rule choice_member)
  note o = other_accounts_sound [OF assms(4) m]
  show ?thesis
  proof (cases accs)
    case (JArr xs)
    then have "elems = xs" "2 \<le> length xs" "from_account \<in> set xs"
      using assms(1,2,3)
      by (auto simp: py_iter_def truthy_and_len_ge_def py_len_def random_choice_def
            dest: choice_member split: if_splits)
    then show ?thesis
      using JArr o assms(6,7) by auto
  next
    case (JStr cs)
    then have "to_account \<in> set (map (\<lambda>c. JStr [c]) cs)"
      using o assms(3) by (auto simp: py_iter_def)
    then show ?thesis
      using o by (auto simp: py_get_def py_get_default_def)
  qed (use assms(2) in \<open>auto simp: random_choice_def split: if_splits\<close>)
qed


lemma transfer_response_total: "\<exists>m. transfer_response response s = (Inr (m, ()), s)"
  by (auto simp: transfer_response_def validate_response_eq response_json_def action_defs
        split: option.splits)

lemma view_and_transfer_sent:
  assumes "get_user_accounts client s = (Inr accs, s1)"
    and "view_and_transfer client i j u s = (res, s')"
  shows "sent s' = sent s1
   \<or> (\<exists>out. sent s' = sent s1 @ [(accounts_request s1, out)])
   \<or> (\<exists>xs from_account to_account f t out.
         accs = JArr xs \<and> 2 \<le> length xs \<and> from_account \<in> set xs \<and> to_account \<in> set xs
         \<and> py_get from_account ''accountno'' = Inr f \<and> py_get to_account ''accountno'' = Inr t
         \<and> py_truthy f \<and> py_truthy t \<and> \<not> py_eq t f
         \<and> with_response client (transfer_request s1 f t (py_round2 (random_uniform 1 100 u))) transfer_response s1
             = (res, s')
         \<and> sent s' = sent s1 @ [(transfer_request s1 f t (py_round2 (random_uniform 1 100 u)), out)])"
proof (cases "truthy_and_len_ge accs 2")
  case (Inl e)
  then show ?thesis
    using assms by (simp add: view_and_transfer_def then_do_def lift_def)
next
  case (Inr enough)
  show ?thesis
  proof (cases enough)
    case False
    obtain v where "fst (get_user_accounts client s1) = Inr v"
      using get_user_accounts_total [of client s1] by blast
    then have "s' = snd (get_user_accounts client s1)"
      using assms Inr False
      by (simp add: view_and_transfer_def then_do_def lift_def returns_def split: prod.splits)
    then show ?thesis
      using get_user_accounts_sent [of client s1] by auto
  next
    case True
    show ?thesis
    proof (cases "\<exists>from_account elems others to_account f t.
        random_choice i accs = Inr from_account \<and> py_iter accs = Inr elems
        \<and> other_accounts elems from_account = Inr others \<and> choice j others = Inr to_account
        \<and> py_get from_account ''accountno'' = Inr f \<and> py_get to_account ''accountno'' = Inr t
        \<and> py_truthy f \<and> py_truthy t")
      case False
      then have "s' = s1"
        using assms Inr True
        by (auto simp: view_and_transfer_def then_do_def lift_def returns_def
              split: sum.splits if_splits)
      then show ?thesis by simp
    next
      case picked: True
      then obtain from_account elems others to_account f t where p:
        "random_choice i accs = Inr from_account" "py_iter accs = Inr elems"
        "other_accounts elems from_account = Inr others" "choice j others = Inr to_account"
        "py_get from_account ''accountno'' = Inr f" "py_get to_account ''accountno'' = Inr t"
        "py_truthy f" "py_truthy t"
        by blast
      have e: "truthy_and_len_ge accs 2 = Inr True"
        using Inr True by simp
      obtain xs where xs: "accs = JArr xs" "2 \<le> length xs" "from_account \<in> set xs"
        "to_account \<in> set xs" "\<not> py_eq t f"
        using transfer_pick [OF e p(1-6)] by blast
      let ?rq = "transfer_request s1 f t (py_round2 (random_uniform 1 100 u))"
      have w: "with_response client ?rq transfer_response s1 = (res, s')"
        using assms e p by (simp add: view_and_transfer_def then_do_def lift_def)
      have "\<exists>out. sent s' = sent s1 @ [(?rq, out)]"
      proof (cases "client (length (sent s1)) ?rq")
        case (Inl e)
        then show ?thesis
          using w by (auto simp: with_response_def)
      next
        case (Inr response)
        obtain m where "transfer_response response s1 = (Inr (m, ()), s1)"
          using transfer_response_total [of response s1] by blast
        then show ?thesis
          using w Inr by (auto simp: with_response_def)
      qed
      then show ?thesis
        using xs p w by blast
    qed
  qed
qed


lemma py_get_truthy_field:
  "py_get v key = Inr f \<Longrightarrow> py_truthy f \<Longrightarrow> field_of v key = Some f"
  by (auto simp: py_get_def py_get_default_def field_of_def split: json.splits option.splits)

text \<open>
  C6. Every transfer request that \<open>view_and_transfer\<close> issues is sent only when the
  account list it fetched is a list of at least 2 entries. Its \<^verbatim>\<open>fromAccount\<close> and
  \<^verbatim>\<open>toAccount\<close> are the \<^verbatim>\<open>accountno\<close> values of two entries of that list, and they are
  distinct, as values and under Python's \<^verbatim>\<open>!=\<close>. Its amount lies between 1 and 100 and is
  the value of \<^verbatim>\<open>random.uniform(1.0, 100.0)\<close>, itself between 1 and 100, rounded to two
  decimal places: a multiple \<open>n / 100\<close> of 1/100 that is nearest to that value, so at most
  1/200 away from it, with \<open>n\<close> even when two multiples are equally near. The requests the
  task issues are the entries it adds to \<open>sent\<close>.
\<close>

theorem transfer_request_wellformed:
  assumes "view_and_transfer client i j u s = (res, s')"
    and "(rq, out) \<in> set (drop (length (sent s)) (sent s'))"
    and "url rq = ''/api/v1/account/transfer''"
  shows "\<exists>xs from_account to_account f t amount n.
      fst (get_user_accounts client s) = Inr (JArr xs) \<and> 2 \<le> length xs
      \<and> from_account \<in> set xs \<and> to_account \<in> set xs
      \<and> field_of from_account ''accountno'' = Some f
      \<and> field_of to_account ''accountno'' = Some t
      \<and> f \<noteq> t \<and> \<not> py_eq t f
      \<and> payload rq = TransferData f t amount ''Test transfer from load test''
      \<and> 1 \<le> amount \<and> amount \<le> 100
      \<and> amount = of_int n / 100
      \<and> \<bar>amount - random_uniform 1 100 u\<bar> \<le> 1 / 200
      \<and> (\<bar>amount - random_uniform 1 100 u\<bar> = 1 / 200 \<longrightarrow> even n)
      \<and> 1 \<le> random_uniform 1 100 u \<and> random_uniform 1 100 u \<le> 100"
proof -
  obtain accs where "fst (get_user_accounts client s) = Inr accs"
    using get_user_accounts_total [of client s] by blast
  then obtain s1 where g: "get_user_accounts client s = (Inr accs, s1)"
    by (cases "get_user_accounts client s") simp
  have s1: "sent s1 = sent s \<or> (\<exists>o1. sent s1 = sent s @ [(accounts_request s, o1)])"
    using get_user_accounts_sent [of client s] g by simp
  have u: "url (accounts_request v) \<noteq> ''/api/v1/account/transfer''" for v
    by (simp add: accounts_request_def)
  let ?x = "random_uniform 1 100 u"
  note v = view_and_transfer_sent [OF g assms(1)]
  have "\<exists>xs from_account to_account f t.
         accs = JArr xs \<and> 2 \<le> length xs \<and> from_account \<in> set xs \<and> to_account \<in> set xs
         \<and> py_get from_account ''accountno'' = Inr f \<and> py_get to_account ''accountno'' = Inr t
         \<and> py_truthy f \<and> py_truthy t \<and> \<not> py_eq t f
         \<and> rq = transfer_request s1 f t (py_round2 ?x)"
    using v s1 assms(2,3) u by (elim disjE exE) auto
  then obtain xs from_account to_account f t where p:
    "accs = JArr xs" "2 \<le> length xs" "from_account \<in> set xs" "to_account \<in> set xs"
    "py_get from_account ''accountno'' = Inr f" "py_get to_account ''accountno'' = Inr t"
    "py_truthy f" "py_truthy t" "\<not> py_eq t f" "rq = transfer_request s1 f t (py_round2 ?x)"
    by blast
  have ne: "f \<noteq> t"
    using p(9) py_eq_refl [of t] by auto
  have fields: "field_of from_account ''accountno'' = Some f"
    "field_of to_account ''accountno'' = Some t"
    using p by (simp_all add: py_get_truthy_field)
  have pay: "payload rq = TransferData f t (py_round2 ?x) ''Test transfer from load test''"
    using p(10) by (simp add: transfer_request_def)
  have x: "1 \<le> ?x" "?x \<le> 100"
    using random_uniform_range [of 1 100 u] by simp_all
  have r: "1 \<le> py_round2 ?x" "py_round2 ?x \<le> 100"
    using py_round2_range [OF x] by simp_all
  have n: "py_round2 ?x = of_int (round_half_even (?x * 100)) / 100"
    by (simp add: py_round2_def)
  have "fst (get_user_accounts client s) = Inr (JArr xs) \<and> 2 \<le> length xs
      \<and> from_account \<in> set xs \<and> to_account \<in> set xs
      \<and> field_of from_account ''accountno'' = Some f
      \<and> field_of to_account ''accountno'' = Some t
      \<and> f \<noteq> t \<and> \<not> py_eq t f
      \<and> payload rq = TransferData f t (py_round2 ?x) ''Test transfer from load test''
      \<and> 1 \<le> py_round2 ?x \<and> py_round2 ?x \<le> 100
      \<and> py_round2 ?x = of_int (round_half_even (?x * 100)) / 100
      \<and> \<bar>py_round2 ?x - ?x\<bar> \<le> 1 / 200
      \<and> (\<bar>py_round2 ?x - ?x\<bar> = 1 / 200 \<longrightarrow> even (round_half_even (?x * 100)))
      \<and> 1 \<le> ?x \<and> ?x \<le> 100"
    using g p(1-4,9) ne fields pay x r n py_round2_nearest [of ?x] by simp
  then show ?thesis
    by blast
qed

theorem transfer_request_wellformed_witness:
  "view_and_transfer
      (always \<lparr>status_code = 200,
                decoded = Some (JObj [(''transactionStatus'', JStr ''SUCCESS'')])\<rparr>)
      0 0 (89 / 792) active_user
    = (Inr (),
       active_user\<lparr>sent :=
         [(transfer_request active_user (JInt 1000001) (JInt 1000002) (1212 / 100),
           Marked Success)]\<rparr>)
   \<and> random_uniform 1 100 (89 / 792) = 97 / 8
   \<and> url (transfer_request active_user (JInt 1000001) (JInt 1000002) (1212 / 100))
       = ''/api/v1/account/transfer''
   \<and> (\<exists>xs from_account to_account f t amount n.
        fst (get_user_accounts
               (always \<lparr>status_code = 200,
                         decoded = Some (JObj [(''transactionStatus'', JStr ''SUCCESS'')])\<rparr>)
               active_user) = Inr (JArr xs) \<and> 2 \<le> length xs
        \<and> from_account \<in> set xs \<and> to_account \<in> set xs
        \<and> field_of from_account ''accountno'' = Some f
        \<and> field_of to_account ''accountno'' = Some t
        \<and> f \<noteq> t \<and> \<not> py_eq t f
        \<and> payload (transfer_request active_user (JInt 1000001) (JInt 1000002) (1212 / 100))
            = TransferData f t amount ''Test transfer from load test''
        \<and> 1 \<le> amount \<and> amount \<le> 100
        \<and> amount = of_int n / 100
        \<and> \<bar>amount - random_uniform 1 100 (89 / 792)\<bar> \<le> 1 / 200
        \<and> (\<bar>amount - random_uniform 1 100 (89 / 792)\<bar> = 1 / 200 \<longrightarrow> even n)
        \<and> 1 \<le> random_uniform 1 100 (89 / 792) \<and> random_uniform 1 100 (89 / 792) \<le> 100)
   \<and> \<bar>(1212 / 100 :: rat) - 97 / 8\<bar> = 1 / 200"
proof -
  let ?c = "always \<lparr>status_code = 200,
                     decoded = Some (JObj [(''transactionStatus'', JStr ''SUCCESS'')])\<rparr>"
  let ?rq = "transfer_request active_user (JInt 1000001) (JInt 1000002) (1212 / 100)"
  let ?s' = "active_user\<lparr>sent := [(?rq, Marked Success)]\<rparr>"
  have fr: "frac (89 / 792 :: rat) = 89 / 792"
    by (simp add: frac_eq)
  have x: "random_uniform 1 100 (89 / 792) = 97 / 8"
    by (simp add: random_uniform_def fr)
  have fl: "\<lfloor>2425 / 2 :: rat\<rfloor> = 1212"
    by (rule floor_unique) simp_all
  have r: "py_round2 (97 / 8) = 1212 / 100"
    by (simp add: py_round2_def round_half_even_def fl)
  have run: "view_and_transfer ?c 0 0 (89 / 792) active_user = (Inr (), ?s')"
    unfolding view_and_transfer_def x r
    by (simp add: get_user_accounts_def truthy_and_len_ge_def py_len_def
        random_choice_def choice_def py_iter_def py_get_def py_get_default_def transfer_request_def
        transfer_response_def validate_response_def validate_json_def response_json_def
        always_def active_user_def two_accounts_def action_defs py_str_def upper_def upper_char_def)
  have mem: "(?rq, Marked Success) \<in> set (drop (length (sent active_user)) (sent ?s'))"
    by (simp add: active_user_def)
  have u: "url ?rq = ''/api/v1/account/transfer''"
    by (simp add: transfer_request_def)
  have tie: "\<bar>(1212 / 100 :: rat) - 97 / 8\<bar> = 1 / 200"
    by simp
  show ?thesis
    using transfer_request_wellformed [OF run mem u] run x u tie by blast
qed

subsection \<open>Classification of the transfer response\<close>

lemmas run_defs = view_and_transfer_def get_user_accounts_def truthy_and_len_ge_def py_len_def
  random_choice_def choice_def py_iter_def py_get_def py_get_default_def transfer_request_def
  transfer_response_def validate_response_def validate_json_def response_json_def
  always_def active_user_def two_accounts_def action_defs

lemma amount_of_half: "py_round2 (random_uniform 1 100 (1 / 2)) = 101 / 2"
proof -
  have "frac (1 / 2 :: rat) = 1 / 2"
    by (simp add: frac_eq)
  then have u: "random_uniform 1 100 (1 / 2) = 101 / 2"
    by (simp add: random_uniform_def)
  show ?thesis
    unfolding u by (simp add: py_round2_def round_half_even_def)
qed

lemma transfer_entry:
  assumes "view_and_transfer client i j u s = (res, s')"
    and "(rq, out) \<in> set (drop (length (sent s)) (sent s'))"
    and "url rq = ''/api/v1/account/transfer''"
  shows "\<exists>s1. with_response client rq transfer_response s1 = (res, s')
           \<and> length (sent s1) = length (sent s') - 1
           \<and> sent s' = sent s1 @ [(rq, out)]"
proof -
  obtain accs where "fst (get_user_accounts client s) = Inr accs"
    using get_user_accounts_total [of client s] by blast
  then obtain s1 where g: "get_user_accounts client s = (Inr accs, s1)"
    by (cases "get_user_accounts client s") simp
  have s1: "sent s1 = sent s \<or> (\<exists>o1. sent s1 = sent s @ [(accounts_request s, o1)])"
    using get_user_accounts_sent [of client s] g by simp
  have u: "url (accounts_request v) \<noteq> ''/api/v1/account/transfer''" for v
    by (simp add: accounts_request_def)
  note v = view_and_transfer_sent [OF g assms(1)]
  have "\<exists>f t. with_response client (transfer_request s1 f t (py_round2 (random_uniform 1 100 u))) transfer_response s1
             = (res, s')
           \<and> rq = transfer_request s1 f t (py_round2 (random_uniform 1 100 u))
           \<and> sent s' = sent s1 @ [(rq, out)]"
    using v s1 assms(2,3) u by (elim disjE exE) auto
  then show ?thesis
    by auto
qed

text \<open>
  C1 as the specification states it fails: a user with two cached accounts gets status 200
  with the body \<^verbatim>\<open>{}\<close> for its transfer. The body has no \<^verbatim>\<open>transactionStatus\<close>, and the
  transfer is recorded as passed.
\<close>

theorem transfer_200_without_status_counterexample:
  "body_field \<lparr>status_code = 200, decoded = Some (JObj [])\<rparr> ''transactionStatus'' = None
   \<and> view_and_transfer (always \<lparr>status_code = 200, decoded = Some (JObj [])\<rparr>) 0 0 (1 / 2) active_user
     = (Inr (),
        active_user\<lparr>sent :=
          [(transfer_request active_user (JInt 1000001) (JInt 1000002) (101 / 2), Marked Success)]\<rparr>)"
  by (simp add: run_defs amount_of_half body_field_def field_of_def)

text \<open>
  C1, as the code has it. For every transfer request that \<open>view_and_transfer\<close> issues and
  that is answered with status 200, the call is recorded as failed exactly when the JSON
  body is an object whose \<^verbatim>\<open>transactionStatus\<close> value is truthy and its text, in upper
  case, does not contain \<^verbatim>\<open>SUCCESS\<close>. Every other 200 response is recorded as passed: a
  body that is not JSON or not an object, a field that is absent or falsy, and a value
  whose text contains \<^verbatim>\<open>success\<close> in any case. The transfer is the last call of the task,
  so the response it gets is the client's answer at the index \<open>length (sent s') - 1\<close>.
\<close>

theorem transfer_200_classification:
  assumes "view_and_transfer client i j u s = (res, s')"
    and "(rq, out) \<in> set (drop (length (sent s)) (sent s'))"
    and "url rq = ''/api/v1/account/transfer''"
    and "client (length (sent s') - 1) rq = Inr response"
    and "status_code response = 200"
  shows "out = Marked (if (\<exists>v. body_field response ''transactionStatus'' = Some v
                            \<and> py_truthy v \<and> \<not> contains ''SUCCESS'' (upper (py_str v)))
                      then Failure else Success)"
proof -
  obtain s1 where w: "with_response client rq transfer_response s1 = (res, s')"
    and l: "length (sent s1) = length (sent s') - 1"
    and e: "sent s' = sent s1 @ [(rq, out)]"
    using transfer_entry [OF assms(1,2,3)] by blast
  have "client (length (sent s1)) rq = Inr response"
    using assms(4) l by simp
  then have "sent s' = sent s1 @
      [(rq, Marked (if (\<exists>v. body_field response ''transactionStatus'' = Some v
                            \<and> py_truthy v \<and> \<not> contains ''SUCCESS'' (upper (py_str v)))
                      then Failure else Success))]"
    using w assms(5) by (auto simp: with_response_def transfer_response_200)
  then show ?thesis
    using e by simp
qed

theorem transfer_200_classification_witness:
  "view_and_transfer
      (always \<lparr>status_code = 200,
                decoded = Some (JObj [(''transactionStatus'', JStr ''PENDING'')])\<rparr>)
      0 0 (1 / 2) active_user
    = (Inr (),
       active_user\<lparr>sent :=
         [(transfer_request active_user (JInt 1000001) (JInt 1000002) (101 / 2), Marked Failure)]\<rparr>)
   \<and> body_field
        \<lparr>status_code = 200, decoded = Some (JObj [(''transactionStatus'', JStr ''PENDING'')])\<rparr>
        ''transactionStatus'' = Some (JStr ''PENDING'')
   \<and> \<not> contains ''SUCCESS'' (upper (py_str (JStr ''PENDING'')))
   \<and> Marked Failure =
       Marked (if (\<exists>v. body_field
                        \<lparr>status_code = 200,
                          decoded = Some (JObj [(''transactionStatus'', JStr ''PENDING'')])\<rparr>
                        ''transactionStatus'' = Some v
                      \<and> py_truthy v \<and> \<not> contains ''SUCCESS'' (upper (py_str v)))
               then Failure else Success)"
proof -
  let ?r = "\<lparr>status_code = 200,
             decoded = Some (JObj [(''transactionStatus'', JStr ''PENDING'')])\<rparr>"
  let ?rq = "transfer_request active_user (JInt 1000001) (JInt 1000002) (101 / 2)"
  let ?s' = "active_user\<lparr>sent := [(?rq, Marked Failure)]\<rparr>"
  have run: "view_and_transfer (always ?r) 0 0 (1 / 2) active_user = (Inr (), ?s')"
    by (simp add: run_defs amount_of_half py_str_def upper_def upper_char_def)
  have mem: "(?rq, Marked Failure) \<in> set (drop (length (sent active_user)) (sent ?s'))"
    by (simp add: active_user_def)
  have u: "url ?rq = ''/api/v1/account/transfer''"
    by (simp add: transfer_request_def)
  have c: "always ?r (length (sent ?s') - 1) ?rq = Inr ?r"
    by (simp add: always_def)
  have st: "status_code ?r = 200"
    by simp
  have b: "body_field ?r ''transactionStatus'' = Some (JStr ''PENDING'')"
    by (simp add: body_field_def field_of_def)
  have n: "\<not> contains ''SUCCESS'' (upper (py_str (JStr ''PENDING'')))"
    by (simp add: py_str_def upper_def upper_char_def)
  show ?thesis
    using transfer_200_classification [OF run mem u c st] run b n by blast
qed




end
